theory Spec2Isabelle
  imports Complex_Main
begin

section \<open>Numbers and their text\<close>

text \<open>
  A Number of the source is a double. The runtime arithmetic is modelled on the safe
  integers, the whole numbers of magnitude at most \<open>2^53 - 1\<close> (those that
  \<^verbatim>\<open>Number.isSafeInteger\<close> accepts), where the double arithmetic of \<^verbatim>\<open>formatRuntime\<close> is exact:
  \<^item> every safe integer is a double;
  \<^item> \<^verbatim>\<open>runtime / 60\<close> is the exact quotient rounded to a double. The quotient is below
    \<open>2^48\<close> in magnitude, where neighbouring doubles are at most \<open>2^-5\<close> apart, so rounding
    moves it by at most \<open>2^-6\<close>; a quotient that is not whole lies at least \<open>1/60\<close> from
    the whole numbers, and a whole one is a double. So \<^verbatim>\<open>Math.floor\<close> of the rounded quotient
    is the floor of the exact one;
  \<^item> \<^verbatim>\<open>%\<close> is exact on doubles and truncates: the remainder has the sign of the dividend;
  \<^item> a template literal prints a whole Number below \<open>10^21\<close> in magnitude as its decimal
    numeral, with a leading minus sign when it is negative.
  Fractional runtimes and runtimes beyond the safe integers are outside the model.
\<close>

typedef safe_integer = "{i :: int. \<bar>i\<bar> \<le> 9007199254740991}"
  morphisms number_value Number
  by (rule exI [of _ 0]) simp

setup_lifting type_definition_safe_integer

text \<open>The decimal numeral of a natural number and of an integer.\<close>

definition digit_char :: "nat \<Rightarrow> char" where
  "digit_char d = ''0123456789'' ! d"

function decimal_nat :: "nat \<Rightarrow> string" where
  "decimal_nat n =
     (if n < 10 then [digit_char n] else decimal_nat (n div 10) @ [digit_char (n mod 10)])"
  by pat_completeness auto
termination
  by (relation "measure (\<lambda>n. n)") auto

declare decimal_nat.simps [simp del]

definition decimal :: "int \<Rightarrow> string" where
  "decimal i = (if i < 0 then ''-'' @ decimal_nat (nat (- i)) else decimal_nat (nat i))"

text \<open>The text of a safe integer in a template literal (\<^verbatim>\<open>`${hours}h`\<close>).\<close>

definition numberToString :: "safe_integer \<Rightarrow> string" where
  "numberToString n = decimal (number_value n)"

text \<open>The truncating remainder of two integers, the value of \<^verbatim>\<open>a % b\<close>.\<close>

definition js_rem :: "int \<Rightarrow> int \<Rightarrow> int" where
  "js_rem a b = sgn a * (\<bar>a\<bar> mod \<bar>b\<bar>)"

text \<open>\<^verbatim>\<open>Math.floor(runtime / 60)\<close> and \<^verbatim>\<open>runtime % 60\<close>; both are safe integers again.\<close>

lift_definition floor_div60 :: "safe_integer \<Rightarrow> safe_integer" is "\<lambda>r. r div 60"
  by arith

lift_definition rem60 :: "safe_integer \<Rightarrow> safe_integer" is "\<lambda>r. js_rem r 60"
proof -
  fix r :: int
  have "\<bar>js_rem r 60\<bar> = \<bar>sgn r\<bar> * (\<bar>r\<bar> mod 60)" by (simp add: js_rem_def abs_mult)
  also have "\<dots> \<le> \<bar>r\<bar> mod 60" by (simp add: abs_sgn_eq)
  also have "\<dots> < 60" by simp
  finally show "\<bar>js_rem r 60\<bar> \<le> 9007199254740991" by simp
qed

section \<open>formatRuntime\<close>

definition formatRuntime :: "safe_integer \<Rightarrow> string" where
  "formatRuntime runtime =
     (let hours = floor_div60 runtime;
          minutes = rem60 runtime
      in if number_value hours > 0
         then numberToString hours @ ''h '' @ numberToString minutes @ ''m''
         else numberToString minutes @ ''m'')"

section \<open>Data received from the metadata service\<close>

text \<open>
  The interfaces \<^verbatim>\<open>MediaData\<close> and \<^verbatim>\<open>MediaInfo\<close> of PopupModal.tsx. An optional field
  (\<^verbatim>\<open>runtime?: number\<close>) is an \<open>option\<close>, \<open>None\<close> standing for \<^verbatim>\<open>undefined\<close>. A runtime
  is a safe integer, as above. A vote average is a \<open>rat\<close>: every finite double is a rational, and halving and \<^verbatim>\<open>Math.round\<close> are exact on
  doubles, so the arithmetic of the star row is the same on rationals.
\<close>

record ReleaseDate =
  certification :: string
  release_date :: string

record RegionResult =
  iso_3166_1 :: string
  rating :: "string option"
  release_dates :: "ReleaseDate list option"

record MediaInfo =
  results :: "RegionResult list option"

record MediaData =
  backdrop_path :: "string option"
  data_title :: "string option"
  data_name :: "string option"
  runtime :: "safe_integer option"
  data_release_date :: "string option"
  first_air_date :: "string option"
  vote_average :: "rat option"
  genres :: "string list option"
  overview :: "string option"

text \<open>
  Modelled from the spec: the declaration of \<^verbatim>\<open>MediaItem\<close> lives in utils/mediaTypes, which is
  not among the sources. The spec gives a media reference an id, a type and a display title;
  the component reads \<^verbatim>\<open>media.id\<close>, \<^verbatim>\<open>media.type\<close>, \<^verbatim>\<open>media.title\<close> and \<^verbatim>\<open>media.poster\<close>. The
  type is kept a string, since the component compares it with the literals \<^verbatim>\<open>"show"\<close> and
  \<^verbatim>\<open>"movie"\<close> and has a branch for a type that is neither.
\<close>

record MediaItem =
  media_id :: string
  media_type :: string
  media_title :: string
  media_poster :: "string option"

section \<open>Component state and the events that change it\<close>

datatype Visibility = Visible | Hidden

record StyleState =
  opacity :: nat
  visibility :: "Visibility option"

record ModalState =
  style :: StyleState
  data :: "MediaData option"
  mediaInfo :: "MediaInfo option"
  error :: "string option"

text \<open>The initial values of the four \<^verbatim>\<open>useState\<close> hooks.\<close>

definition initialState :: ModalState where
  "initialState =
     \<lparr>style = \<lparr>opacity = 0, visibility = Some Hidden\<rparr>, data = None, mediaInfo = None,
      error = None\<rparr>"

text \<open>
  What can happen to the state: the style effect runs for a value of \<^verbatim>\<open>isVisible\<close>, or one of
  the two requests settles. A rejected request is caught where it was awaited.
\<close>

datatype Event =
    StyleEffect bool
  | FetchDataResolved MediaData
  | FetchDataRejected
  | FetchInfoResolved MediaInfo
  | FetchInfoRejected

fun handle :: "ModalState \<Rightarrow> Event \<Rightarrow> ModalState" where
  "handle s (StyleEffect isVisible) =
     (if isVisible then s\<lparr>style := \<lparr>opacity = 1, visibility = Some Visible\<rparr>\<rparr>
      else s\<lparr>style := \<lparr>opacity = 0, visibility = Some Hidden\<rparr>\<rparr>)"
| "handle s (FetchDataResolved result) = s\<lparr>data := Some result, error := None\<rparr>"
| "handle s FetchDataRejected = s\<lparr>error := Some ''Failed to fetch media data''\<rparr>"
| "handle s (FetchInfoResolved result) = s\<lparr>mediaInfo := Some result, error := None\<rparr>"
| "handle s FetchInfoRejected =
     s\<lparr>error := Some ''Failed to fetch content ratings or release dates''\<rparr>"

section \<open>The two requests\<close>

text \<open>
  A call \<^verbatim>\<open>get(path, {api_key, language})\<close> of the fetch collaborator. The key comes from the
  configuration (\<^verbatim>\<open>conf().TMDB_READ_API_KEY\<close>), which is a parameter here. Each effect returns
  the request it issues, or \<open>None\<close> when it returns early.
\<close>

record Request =
  path :: string
  api_key :: string
  language :: string

definition fetchData :: "string \<Rightarrow> bool \<Rightarrow> MediaItem \<Rightarrow> Request option" where
  "fetchData key isVisible media =
     (if \<not> isVisible then None
      else
        let mediaTypePath = (if media_type media = ''show'' then ''tv'' else media_type media)
        in Some \<lparr>path = ''/'' @ mediaTypePath @ ''/'' @ media_id media,
                 api_key = key, language = ''en-US''\<rparr>)"

definition fetchContentRatingsOrReleaseDates :: "string \<Rightarrow> bool \<Rightarrow> MediaItem \<Rightarrow> Request option" where
  "fetchContentRatingsOrReleaseDates key isVisible media =
     (if \<not> isVisible \<or> (media_type media \<noteq> ''show'' \<and> media_type media \<noteq> ''movie'') then None
      else
        let mediaTypeForAPI = (if media_type media = ''show'' then ''tv'' else media_type media);
            endpointSuffix = (if media_type media = ''show'' then ''content_ratings''
                              else ''release_dates'')
        in Some \<lparr>path = ''/'' @ mediaTypeForAPI @ ''/'' @ media_id media @ ''/'' @ endpointSuffix,
                 api_key = key, language = ''en-US''\<rparr>)"

text \<open>
  Both effects have the dependencies \<^verbatim>\<open>[media.id, media.type, isVisible]\<close>: they run after the
  first render (no previous dependencies) and after a render in which a dependency changed.
\<close>

type_synonym Deps = "string \<times> string \<times> bool"

definition depsChanged :: "Deps option \<Rightarrow> Deps \<Rightarrow> bool" where
  "depsChanged prev cur = (case prev of None \<Rightarrow> True | Some p \<Rightarrow> p \<noteq> cur)"

definition fetchEffects :: "string \<Rightarrow> Deps option \<Rightarrow> bool \<Rightarrow> MediaItem \<Rightarrow> Request list" where
  "fetchEffects key prev isVisible media =
     (if depsChanged prev (media_id media, media_type media, isVisible)
      then List.map_filter (\<lambda>r. r)
             [fetchData key isVisible media, fetchContentRatingsOrReleaseDates key isVisible media]
      else [])"

section \<open>The certification label\<close>

text \<open>
  \<^verbatim>\<open>new Date(s)\<close> is the host's date reader, a parameter \<open>parseDate\<close>: the time value of the
  string, or \<open>None\<close> for an invalid date (time value NaN). A comparison with NaN is false.
\<close>

definition dateGreater :: "(string \<Rightarrow> int option) \<Rightarrow> string \<Rightarrow> string \<Rightarrow> bool" where
  "dateGreater parseDate a b =
     (case parseDate a of None \<Rightarrow> False
      | Some x \<Rightarrow> (case parseDate b of None \<Rightarrow> False | Some y \<Rightarrow> x > y))"

text \<open>The callback handed to \<^verbatim>\<open>reduce\<close>.\<close>

definition laterRelease :: "(string \<Rightarrow> int option) \<Rightarrow> ReleaseDate \<Rightarrow> ReleaseDate \<Rightarrow> ReleaseDate" where
  "laterRelease parseDate prev current =
     (if dateGreater parseDate (release_date prev) (release_date current) then prev else current)"

text \<open>
  \<^verbatim>\<open>Array.prototype.reduce\<close> without an initial value: the first element starts the
  accumulator; on an empty array it throws, which is \<open>None\<close>.
\<close>

fun reduce :: "('a \<Rightarrow> 'a \<Rightarrow> 'a) \<Rightarrow> 'a list \<Rightarrow> 'a option" where
  "reduce f [] = None"
| "reduce f (x # xs) = Some (foldl f x xs)"

definition usReleaseInfo :: "MediaInfo option \<Rightarrow> RegionResult option" where
  "usReleaseInfo info =
     (case info of None \<Rightarrow> None
      | Some i \<Rightarrow> (case results i of None \<Rightarrow> None
                  | Some rs \<Rightarrow> find (\<lambda>result. iso_3166_1 result = ''US'') rs))"

definition certifiedReleases :: "MediaInfo option \<Rightarrow> ReleaseDate list" where
  "certifiedReleases info =
     (case usReleaseInfo info of None \<Rightarrow> []
      | Some us \<Rightarrow> (case release_dates us of None \<Rightarrow> []
                   | Some ds \<Rightarrow> filter (\<lambda>date. certification date \<noteq> []) ds))"

definition relevantRelease :: "(string \<Rightarrow> int option) \<Rightarrow> MediaInfo option \<Rightarrow> ReleaseDate option" where
  "relevantRelease parseDate info =
     (if length (certifiedReleases info) > 0
      then reduce (laterRelease parseDate) (certifiedReleases info)
      else None)"

definition displayCertification :: "(string \<Rightarrow> int option) \<Rightarrow> MediaInfo option \<Rightarrow> string" where
  "displayCertification parseDate info =
     (case relevantRelease parseDate info of Some r \<Rightarrow> certification r | None \<Rightarrow> ''Not Rated'')"

text \<open>The rating shown for a type other than \<^verbatim>\<open>"movie"\<close> (the inline function of the badge).\<close>

definition showRating :: "MediaInfo option \<Rightarrow> string" where
  "showRating info =
     (case usReleaseInfo info of None \<Rightarrow> ''NR''
      | Some releaseInfo \<Rightarrow>
          (case rating releaseInfo of None \<Rightarrow> ''NR''
           | Some r \<Rightarrow> if r \<noteq> [] then r else ''NR''))"

section \<open>What is rendered\<close>

text \<open>A place of the overlay holds text, a loading placeholder, or nothing.\<close>

datatype Slot = Text string | Skeleton | Absent

definition certificationBadge :: "(string \<Rightarrow> int option) \<Rightarrow> string \<Rightarrow> MediaInfo option \<Rightarrow> Slot" where
  "certificationBadge parseDate ty info =
     (if ty = ''movie''
      then (if displayCertification parseDate info \<noteq> []
            then Text (displayCertification parseDate info) else Skeleton)
      else Text (showRating info))"

definition runtimeSlot :: "string \<Rightarrow> MediaData option \<Rightarrow> Slot" where
  "runtimeSlot ty d =
     (if ty = ''movie''
      then (case d of None \<Rightarrow> Skeleton
            | Some md \<Rightarrow> (case runtime md of None \<Rightarrow> Skeleton
                          | Some r \<Rightarrow> if number_value r \<noteq> 0 then Text (formatRuntime r)
                                      else Skeleton))
      else Absent)"

text \<open>
  \<^verbatim>\<open>Math.round\<close> gives the nearest integer, the larger one at a tie. \<^verbatim>\<open>Number(undefined)\<close> is
  NaN, and \<^verbatim>\<open>index < NaN\<close> is false. A star is \<open>True\<close> when filled.
\<close>

definition math_round :: "rat \<Rightarrow> int" where
  "math_round x = \<lfloor>x + 1 / 2\<rfloor>"

definition starFilled :: "MediaData option \<Rightarrow> nat \<Rightarrow> bool" where
  "starFilled d index =
     (case d of None \<Rightarrow> False
      | Some md \<Rightarrow> (case vote_average md of None \<Rightarrow> False
                    | Some v \<Rightarrow> int index < math_round (v / 2)))"

definition stars :: "MediaData option \<Rightarrow> bool list" where
  "stars d = map (starFilled d) [0..<5]"

definition filledStars :: "MediaData option \<Rightarrow> nat" where
  "filledStars d = length (filter (\<lambda>filled. filled) (stars d))"

text \<open>The path the watch button hands to \<^verbatim>\<open>navigate\<close>.\<close>

definition watchRoute :: "MediaItem \<Rightarrow> string" where
  "watchRoute media =
     (let isTVShow = (media_type media = ''show'')
      in ''/media/tmdb-'' @ (if isTVShow then ''tv'' else ''movie'') @ ''-'' @ media_id media
           @ ''-'' @ media_title media)"

record OverlayView =
  badge :: Slot
  runtimeText :: Slot
  starRow :: "bool list"
  watchTarget :: string

datatype View = RenderNull | ErrorDiv string | Overlay OverlayView

definition render :: "(string \<Rightarrow> int option) \<Rightarrow> bool \<Rightarrow> MediaItem \<Rightarrow> ModalState \<Rightarrow> View" where
  "render parseDate isVisible media s =
     (if \<not> isVisible \<and> visibility (style s) = Some Hidden then RenderNull
      else
        (case error s of
           Some e \<Rightarrow>
             if e \<noteq> [] then ErrorDiv (''Error: '' @ e)
             else Overlay
                    \<lparr>badge = certificationBadge parseDate (media_type media) (mediaInfo s),
                     runtimeText = runtimeSlot (media_type media) (data s),
                     starRow = stars (data s), watchTarget = watchRoute media\<rparr>
         | None \<Rightarrow>
             Overlay
               \<lparr>badge = certificationBadge parseDate (media_type media) (mediaInfo s),
                runtimeText = runtimeSlot (media_type media) (data s),
                starRow = stars (data s), watchTarget = watchRoute media\<rparr>))"

section \<open>The outside-click listener\<close>

text \<open>
  The first effect adds \<^verbatim>\<open>handleClickOutside\<close> to the document's \<^verbatim>\<open>mousedown\<close> listeners and
  removes it in its cleanup. It runs on mount and whenever \<^verbatim>\<open>onClose\<close> changes (cleanup of
  the previous run first); unmounting runs the cleanup. Each run makes a new closure, named
  here by a fresh number.
\<close>

record Listeners =
  nextHandler :: nat
  registered :: "nat list"
  currentHandler :: "nat option"

definition noListeners :: Listeners where
  "noListeners = \<lparr>nextHandler = 0, registered = [], currentHandler = None\<rparr>"

datatype Lifecycle = RunEffect | Unmount

definition cleanup :: "Listeners \<Rightarrow> Listeners" where
  "cleanup l =
     (case currentHandler l of None \<Rightarrow> l
      | Some h \<Rightarrow> l\<lparr>registered := remove1 h (registered l), currentHandler := None\<rparr>)"

fun lifecycle :: "Listeners \<Rightarrow> Lifecycle \<Rightarrow> Listeners" where
  "lifecycle l RunEffect =
     (let c = cleanup l
      in c\<lparr>registered := registered c @ [nextHandler c],
           currentHandler := Some (nextHandler c),
           nextHandler := Suc (nextHandler c)\<rparr>)"
| "lifecycle l Unmount = cleanup l"

text \<open>
  \<^verbatim>\<open>modalRef.current\<close> is the overlay's panel while the overlay body is rendered, and null
  while the component renders nothing or the error text.
\<close>

definition modalRefCurrent :: "'node \<Rightarrow> View \<Rightarrow> 'node option" where
  "modalRefCurrent panel v = (case v of Overlay _ \<Rightarrow> Some panel | _ \<Rightarrow> None)"

text \<open>
  \<^verbatim>\<open>Node.contains\<close> is the document's, a parameter. The result is the number of calls of
  \<^verbatim>\<open>onClose\<close> the handler makes.
\<close>

definition handleClickOutside :: "('node \<Rightarrow> 'node \<Rightarrow> bool) \<Rightarrow> 'node option \<Rightarrow> 'node \<Rightarrow> nat" where
  "handleClickOutside contains modalRef target =
     (case modalRef of None \<Rightarrow> 0
      | Some current \<Rightarrow> if \<not> contains current target then 1 else 0)"

text \<open>A \<^verbatim>\<open>mousedown\<close> on the document runs every registered listener.\<close>

definition mousedown :: "('node \<Rightarrow> 'node \<Rightarrow> bool) \<Rightarrow> 'node option \<Rightarrow> Listeners \<Rightarrow> 'node \<Rightarrow> nat" where
  "mousedown contains modalRef l target =
     sum_list (map (\<lambda>h. handleClickOutside contains modalRef target) (registered l))"

section \<open>What the specification asks for\<close>

text \<open>
  From the words of C4, on the integers: \<open>{floor(r/60)}h {r mod 60}m\<close> when
  \<open>floor(r/60) > 0\<close>, and \<open>{r mod 60}m\<close> otherwise.
\<close>

definition spec_formatRuntime :: "int \<Rightarrow> string" where
  "spec_formatRuntime r =
     (if r div 60 > 0 then decimal (r div 60) @ ''h '' @ decimal (r mod 60) @ ''m''
      else decimal (r mod 60) @ ''m'')"


text \<open>From the words of C9: a path of the form \<^verbatim>\<open>{type}-{id}-{title}\<close>.\<close>

definition spec_routeForm :: "string \<Rightarrow> string \<Rightarrow> string \<Rightarrow> string" where
  "spec_routeForm ty ident title = ty @ ''-'' @ ident @ ''-'' @ title"

text \<open>The US entries of a response, in order: what two responses agree on in C6.\<close>

definition usEntries :: "MediaInfo option \<Rightarrow> RegionResult list" where
  "usEntries info =
     (case info of None \<Rightarrow> []
      | Some i \<Rightarrow> (case results i of None \<Rightarrow> []
                  | Some rs \<Rightarrow> filter (\<lambda>result. iso_3166_1 result = ''US'') rs))"

section \<open>Worked examples\<close>

text \<open>
  A date reader for the examples: it reads a date written \<^verbatim>\<open>YYYY-MM-DD\<close> as the number
  \<^verbatim>\<open>YYYYMMDD\<close>, which orders such dates as the calendar does, and rejects the empty string
  and any string with another character.
\<close>

definition digitValue :: "char \<Rightarrow> nat option" where
  "digitValue c =
     map_of [(CHR ''0'', 0), (CHR ''1'', 1), (CHR ''2'', 2), (CHR ''3'', 3), (CHR ''4'', 4),
             (CHR ''5'', 5), (CHR ''6'', 6), (CHR ''7'', 7), (CHR ''8'', 8), (CHR ''9'', 9)] c"

fun readDigits :: "nat \<Rightarrow> string \<Rightarrow> nat option" where
  "readDigits acc [] = Some acc"
| "readDigits acc (c # cs) =
     (case digitValue c of None \<Rightarrow> None | Some d \<Rightarrow> readDigits (10 * acc + d) cs)"

definition exampleParseDate :: "string \<Rightarrow> int option" where
  "exampleParseDate s =
     (if s = [] then None
      else map_option int (readDigits 0 (filter (\<lambda>c. c \<noteq> CHR ''-'') s)))"

definition exampleReleases :: "ReleaseDate list" where
  "exampleReleases =
     [\<lparr>certification = ''PG-13'', release_date = ''2019-04-26''\<rparr>,
      \<lparr>certification = [], release_date = ''2020-01-01''\<rparr>,
      \<lparr>certification = ''R'', release_date = ''2019-08-02''\<rparr>,
      \<lparr>certification = ''NC-17'', release_date = ''2019-08-02''\<rparr>,
      \<lparr>certification = ''G'', release_date = ''2018-01-01''\<rparr>]"

definition exampleUS :: RegionResult where
  "exampleUS = \<lparr>iso_3166_1 = ''US'', rating = None, release_dates = Some exampleReleases\<rparr>"

definition exampleFR :: RegionResult where
  "exampleFR =
     \<lparr>iso_3166_1 = ''FR'', rating = Some ''16'',
      release_dates = Some [\<lparr>certification = ''12'', release_date = ''2021-05-01''\<rparr>]\<rparr>"

definition exampleMovieResponse :: MediaInfo where
  "exampleMovieResponse = \<lparr>results = Some [exampleFR, exampleUS]\<rparr>"

definition exampleUSOnlyResponse :: MediaInfo where
  "exampleUSOnlyResponse = \<lparr>results = Some [exampleUS]\<rparr>"

definition exampleForeignResponse :: MediaInfo where
  "exampleForeignResponse = \<lparr>results = Some [exampleFR]\<rparr>"

definition exampleShowUS :: RegionResult where
  "exampleShowUS = \<lparr>iso_3166_1 = ''US'', rating = Some ''TV-MA'', release_dates = None\<rparr>"

definition exampleShowResponse :: MediaInfo where
  "exampleShowResponse = \<lparr>results = Some [exampleShowUS]\<rparr>"

definition exampleData :: MediaData where
  "exampleData =
     \<lparr>backdrop_path = None, data_title = Some ''The Matrix'', data_name = None,
      runtime = Some (Number 136), data_release_date = Some ''1999-03-31'', first_air_date = None,
      vote_average = Some 7, genres = None, overview = None\<rparr>"

text \<open>The state of a visible overlay whose primary request has failed.\<close>

definition exampleFailedState :: ModalState where
  "exampleFailedState = handle (handle initialState (StyleEffect True)) FetchDataRejected"

text \<open>
  A document of three nodes for the examples: 0 is the page body, 1 the overlay's panel,
  2 the watch button inside the panel. A node contains itself and its descendants.
\<close>

definition exampleContains :: "nat \<Rightarrow> nat \<Rightarrow> bool" where
  "exampleContains a b = (a = b \<or> a = 0 \<or> (a = 1 \<and> b = 2))"

definition exampleMovie :: MediaItem where
  "exampleMovie =
     \<lparr>media_id = ''603'', media_type = ''movie'', media_title = ''The Matrix'',
      media_poster = None\<rparr>"

definition exampleShow :: MediaItem where
  "exampleShow =
     \<lparr>media_id = ''1399'', media_type = ''show'', media_title = ''Game of Thrones'',
      media_poster = None\<rparr>"

section \<open>Properties of formatRuntime\<close>

text \<open>The decimal numeral of a number reads back as that number.\<close>

lemma digitValue_digit_char: "d < 10 \<Longrightarrow> digitValue (digit_char d) = Some d"
proof -
  assume "d < 10"
  then have "d = 0 \<or> d = 1 \<or> d = 2 \<or> d = 3 \<or> d = 4 \<or> d = 5 \<or> d = 6 \<or> d = 7 \<or> d = 8 \<or> d = 9"
    by arith
  then show ?thesis
    by (elim disjE) (simp_all add: digit_char_def digitValue_def)
qed

lemma readDigits_snoc:
  "readDigits acc (cs @ [c]) =
     (case readDigits acc cs of None \<Rightarrow> None
      | Some a \<Rightarrow> (case digitValue c of None \<Rightarrow> None | Some d \<Rightarrow> Some (10 * a + d)))"
  by (induction cs arbitrary: acc) (simp_all split: option.splits)

lemma readDigits_decimal_nat: "readDigits 0 (decimal_nat n) = Some n"
proof (induction n rule: decimal_nat.induct)
  case (1 n)
  show ?case
  proof (cases "n < 10")
    case True
    then show ?thesis
      by (subst decimal_nat.simps) (simp add: digitValue_digit_char)
  next
    case False
    then have ih: "readDigits 0 (decimal_nat (n div 10)) = Some (n div 10)" using 1 by simp
    have "n mod 10 < 10" by simp
    then have dv: "digitValue (digit_char (n mod 10)) = Some (n mod 10)"
      by (rule digitValue_digit_char)
    show ?thesis
      using False by (subst decimal_nat.simps) (simp add: readDigits_snoc ih dv)
  qed
qed

lemma number_value_Number:
  "\<bar>i\<bar> \<le> 9007199254740991 \<Longrightarrow> number_value (Number i) = i"
  by (simp add: Number_inverse)

lemma js_rem_nonneg: "0 \<le> a \<Longrightarrow> js_rem a 60 = a mod 60"
  by (cases "a = 0") (simp_all add: js_rem_def)

lemma decimal_digits:
  "decimal 2 = ''2''" "decimal 5 = ''5''" "decimal 45 = ''45''" "decimal 55 = ''55''"
  "decimal (- 5) = ''-5''"
  by (simp_all add: decimal_def decimal_nat.simps [of 45] decimal_nat.simps [of 55]
      decimal_nat.simps [of 4] decimal_nat.simps [of 5] decimal_nat.simps [of 2] digit_char_def)

text \<open>
  C4, as stated, fails below zero: for a runtime of \<open>-5\<close> the code prints the truncating
  remainder, where the claim's formula has \<open>-5 mod 60 = 55\<close>.
\<close>

theorem formatRuntime_negative_counterexample:
  "formatRuntime (Number (- 5)) = ''-5m''
   \<and> spec_formatRuntime (- 5) = ''55m''
   \<and> formatRuntime (Number (- 5)) \<noteq> spec_formatRuntime (- 5)"
  by (simp add: formatRuntime_def spec_formatRuntime_def numberToString_def
      floor_div60.rep_eq rem60.rep_eq number_value_Number js_rem_def decimal_digits)

text \<open>
  C4, amended. For a runtime \<open>r\<close> that is a whole number of minutes with
  \<open>0 \<le> r \<le> 2^53 - 1\<close>, the formatted runtime is \<open>{floor(r/60)}h {r mod 60}m\<close> when
  \<open>floor(r/60) > 0\<close>, and \<open>{r mod 60}m\<close> with no hour segment otherwise.
\<close>

theorem formatRuntime_hours_minutes:
  assumes "0 \<le> r" and "r \<le> 9007199254740991"
  shows "formatRuntime (Number r) = spec_formatRuntime r"
proof -
  have v: "number_value (Number r) = r" using assms by (intro number_value_Number) simp
  show ?thesis
    using assms(1)
    by (simp add: formatRuntime_def spec_formatRuntime_def numberToString_def Let_def
        floor_div60.rep_eq rem60.rep_eq v js_rem_nonneg)
qed

theorem formatRuntime_hours_minutes_witness:
  "formatRuntime (Number 125) = ''2h 5m'' \<and> formatRuntime (Number 45) = ''45m''"
  using formatRuntime_hours_minutes [of 125] formatRuntime_hours_minutes [of 45]
  by (simp add: spec_formatRuntime_def decimal_digits)

text \<open>
  The overlay formats the runtime of a movie only when it is not zero; for a zero or
  missing runtime it shows the loading placeholder.
\<close>

lemma runtimeSlot_movie:
  "runtime md = Some r \<Longrightarrow> number_value r \<noteq> 0 \<Longrightarrow> runtimeSlot ''movie'' (Some md) = Text (formatRuntime r)"
  by (simp add: runtimeSlot_def)

lemma runtimeSlot_zero:
  "runtime md = Some (Number 0) \<Longrightarrow> runtimeSlot ''movie'' (Some md) = Skeleton"
  by (simp add: runtimeSlot_def number_value_Number)

section \<open>Choosing the certified release\<close>





lemma example_usReleaseInfo: "usReleaseInfo (Some exampleMovieResponse) = Some exampleUS"
  by (simp add: usReleaseInfo_def exampleMovieResponse_def exampleFR_def exampleUS_def)



section \<open>Entries of other countries\<close>

lemma find_as_filter:
  "find P xs = (case filter P xs of [] \<Rightarrow> None | x # _ \<Rightarrow> Some x)"
  by (induction xs) simp_all

lemma usReleaseInfo_usEntries:
  "usReleaseInfo info = (case usEntries info of [] \<Rightarrow> None | us # _ \<Rightarrow> Some us)"
  by (simp add: usReleaseInfo_def usEntries_def find_as_filter split: option.splits)

text \<open>
  C6. Two responses with the same US entries, however they differ in the entries of other
  countries, give the same displayed certification, for every media type.
\<close>

theorem only_US_entry_matters:
  assumes "usEntries a = usEntries b"
  shows "certificationBadge parseDate ty a = certificationBadge parseDate ty b"
proof -
  have "usReleaseInfo a = usReleaseInfo b"
    using assms by (simp add: usReleaseInfo_usEntries)
  then show ?thesis
    by (simp add: certificationBadge_def displayCertification_def relevantRelease_def
        certifiedReleases_def showRating_def)
qed

theorem only_US_entry_matters_witness:
  "usEntries (Some exampleMovieResponse) = usEntries (Some exampleUSOnlyResponse)
   \<and> Some exampleMovieResponse \<noteq> Some exampleUSOnlyResponse
   \<and> certificationBadge exampleParseDate ''movie'' (Some exampleMovieResponse)
       = certificationBadge exampleParseDate ''movie'' (Some exampleUSOnlyResponse)"
proof -
  have eq: "usEntries (Some exampleMovieResponse) = usEntries (Some exampleUSOnlyResponse)"
    by (simp add: usEntries_def exampleMovieResponse_def exampleUSOnlyResponse_def
        exampleFR_def exampleUS_def)
  have neq: "Some exampleMovieResponse \<noteq> Some exampleUSOnlyResponse"
    by (simp add: exampleMovieResponse_def exampleUSOnlyResponse_def)
  show ?thesis
    using only_US_entry_matters [OF eq, of exampleParseDate "''movie''"] eq neq by simp
qed

section \<open>The fallback label\<close>

text \<open>
  C2, as stated, fails for a show: the US entry of this response has no release entry with
  a certification label, and the badge shows the entry's rating, not \<^verbatim>\<open>NR\<close>.
\<close>

theorem show_rating_counterexample:
  "usReleaseInfo (Some exampleShowResponse) \<noteq> None
   \<and> certifiedReleases (Some exampleShowResponse) = []
   \<and> certificationBadge exampleParseDate ''show'' (Some exampleShowResponse) = Text ''TV-MA''
   \<and> certificationBadge exampleParseDate ''show'' (Some exampleShowResponse) \<noteq> Text ''NR''"
  by (simp add: certificationBadge_def showRating_def usReleaseInfo_def certifiedReleases_def
      exampleShowResponse_def exampleShowUS_def)

lemma displayCertification_fallback:
  "certifiedReleases info = [] \<Longrightarrow> displayCertification parseDate info = ''Not Rated''"
  by (simp add: displayCertification_def relevantRelease_def)

lemma certifiedReleases_no_US: "usReleaseInfo info = None \<Longrightarrow> certifiedReleases info = []"
  by (simp add: certifiedReleases_def)

text \<open>
  C2, amended. When no US entry exists or the US entry has no release entry with a
  non-empty certification label, the badge of a movie reads \<^verbatim>\<open>Not Rated\<close>. The badge of a
  show reads \<^verbatim>\<open>NR\<close> when no US entry exists or the US entry has no rating or an empty one;
  otherwise it is the US entry's rating, whatever its release entries.
\<close>

theorem fallback_certification:
  "(usReleaseInfo info = None \<or> certifiedReleases info = []
      \<longrightarrow> certificationBadge parseDate ''movie'' info = Text ''Not Rated'')
   \<and> (usReleaseInfo info = None
        \<or> (\<exists>us. usReleaseInfo info = Some us \<and> (rating us = None \<or> rating us = Some []))
      \<longrightarrow> certificationBadge parseDate ''show'' info = Text ''NR'')
   \<and> (\<forall>us r. usReleaseInfo info = Some us \<and> rating us = Some r \<and> r \<noteq> []
      \<longrightarrow> certificationBadge parseDate ''show'' info = Text r)"
proof (intro conjI impI allI)
  assume "usReleaseInfo info = None \<or> certifiedReleases info = []"
  then have "certifiedReleases info = []" using certifiedReleases_no_US by blast
  then show "certificationBadge parseDate ''movie'' info = Text ''Not Rated''"
    by (simp add: certificationBadge_def displayCertification_fallback)
next
  assume "usReleaseInfo info = None
          \<or> (\<exists>us. usReleaseInfo info = Some us \<and> (rating us = None \<or> rating us = Some []))"
  then have "showRating info = ''NR''"
    by (auto simp: showRating_def)
  then show "certificationBadge parseDate ''show'' info = Text ''NR''"
    by (simp add: certificationBadge_def)
next
  fix us r
  assume "usReleaseInfo info = Some us \<and> rating us = Some r \<and> r \<noteq> []"
  then have "showRating info = r" by (simp add: showRating_def)
  then show "certificationBadge parseDate ''show'' info = Text r"
    by (simp add: certificationBadge_def)
qed

theorem fallback_certification_witness:
  "usReleaseInfo (Some exampleForeignResponse) = None
   \<and> certificationBadge exampleParseDate ''movie'' (Some exampleForeignResponse) = Text ''Not Rated''
   \<and> certificationBadge exampleParseDate ''show'' (Some exampleForeignResponse) = Text ''NR''
   \<and> usReleaseInfo (Some exampleShowResponse) = Some exampleShowUS
   \<and> certifiedReleases (Some exampleShowResponse) = []
   \<and> certificationBadge exampleParseDate ''movie'' (Some exampleShowResponse) = Text ''Not Rated''
   \<and> certificationBadge exampleParseDate ''show'' (Some exampleShowResponse) = Text ''TV-MA''
   \<and> usReleaseInfo (Some exampleMovieResponse) = Some exampleUS
   \<and> rating exampleUS = None
   \<and> certificationBadge exampleParseDate ''show'' (Some exampleMovieResponse) = Text ''NR''"
proof -
  have none: "usReleaseInfo (Some exampleForeignResponse) = None"
    by (simp add: usReleaseInfo_def exampleForeignResponse_def exampleFR_def)
  have us: "usReleaseInfo (Some exampleShowResponse) = Some exampleShowUS"
    by (simp add: usReleaseInfo_def exampleShowResponse_def exampleShowUS_def)
  have rated: "rating exampleShowUS = Some ''TV-MA''" by (simp add: exampleShowUS_def)
  have nocert: "certifiedReleases (Some exampleShowResponse) = []"
    by (simp add: certifiedReleases_def us exampleShowUS_def)
  have unrated: "rating exampleUS = None" by (simp add: exampleUS_def)
  show ?thesis
    using fallback_certification [of "Some exampleForeignResponse" exampleParseDate]
      fallback_certification [of "Some exampleShowResponse" exampleParseDate]
      fallback_certification [of "Some exampleMovieResponse" exampleParseDate]
      none us rated nocert unrated example_usReleaseInfo
    by simp
qed

section \<open>Failed and successful requests\<close>

text \<open>
  C3, as stated, fails: what is rendered after the primary request fails differs from what
  is rendered after the certification request fails.
\<close>

theorem error_text_counterexample:
  "render exampleParseDate True exampleMovie (handle initialState FetchDataRejected)
     \<noteq> render exampleParseDate True exampleMovie (handle initialState FetchInfoRejected)"
  by (simp add: render_def initialState_def)

text \<open>
  C3, amended. While the component renders anything (it is visible, or its style is not yet
  hidden), right after either request fails the overlay body is replaced by one error
  string: \<^verbatim>\<open>Error: \<close> followed by \<^verbatim>\<open>Failed to fetch media data\<close> for the primary request and
  by \<^verbatim>\<open>Failed to fetch content ratings or release dates\<close> for the certification request.
\<close>

theorem failure_rendered:
  assumes "isVisible \<or> visibility (style s) \<noteq> Some Hidden"
  shows "render parseDate isVisible media (handle s FetchDataRejected)
           = ErrorDiv ''Error: Failed to fetch media data''
         \<and> render parseDate isVisible media (handle s FetchInfoRejected)
           = ErrorDiv ''Error: Failed to fetch content ratings or release dates''"
  using assms by (auto simp: render_def)

theorem failure_rendered_witness:
  "render exampleParseDate True exampleMovie (handle initialState FetchDataRejected)
     = ErrorDiv ''Error: Failed to fetch media data''
   \<and> render exampleParseDate True exampleMovie (handle initialState FetchInfoRejected)
     = ErrorDiv ''Error: Failed to fetch content ratings or release dates''"
  using failure_rendered [of True initialState exampleParseDate exampleMovie] by simp

text \<open>
  C10. A request that succeeds sets the shared error to null; so after one request has
  failed, the success of the other clears the error, and the error text is no longer
  rendered in place of the overlay body.
\<close>

theorem success_clears_error:
  "error (handle s (FetchDataResolved d)) = None
   \<and> error (handle s (FetchInfoResolved i)) = None
   \<and> render parseDate isVisible media (handle (handle s FetchDataRejected) (FetchInfoResolved i))
       \<noteq> ErrorDiv e
   \<and> render parseDate isVisible media (handle (handle s FetchInfoRejected) (FetchDataResolved d))
       \<noteq> ErrorDiv e"
  by (simp add: render_def)

theorem success_clears_error_witness:
  "error (handle (handle initialState FetchDataRejected) (FetchInfoResolved exampleMovieResponse))
     = None
   \<and> render exampleParseDate True exampleMovie
        (handle (handle initialState FetchDataRejected) (FetchInfoResolved exampleMovieResponse))
       \<noteq> ErrorDiv ''Error: Failed to fetch media data''"
  using success_clears_error [of initialState exampleData exampleMovieResponse exampleParseDate
      True exampleMovie "''Error: Failed to fetch media data''"]
  by simp

section \<open>The star row\<close>

lemma filled_prefix:
  assumes "0 \<le> n" "n \<le> 5"
  shows "length (filter (\<lambda>filled. filled) (map (\<lambda>index. int index < n) [0..<5])) = nat n"
proof -
  have five: "[0..<5] = [0, 1, 2, 3, 4::nat]" by (simp add: upt_rec)
  from assms have "n = 0 \<or> n = 1 \<or> n = 2 \<or> n = 3 \<or> n = 4 \<or> n = 5" by arith
  then show ?thesis unfolding five by auto
qed

text \<open>
  C5. For a vote average \<open>v\<close> between 0 and 10, the number of filled stars is \<open>v / 2\<close>
  rounded to the nearest integer, halves up, and the row has five stars.
\<close>

theorem filled_stars_round:
  assumes "vote_average md = Some v" and "0 \<le> v" and "v \<le> 10"
  shows "filledStars (Some md) = nat (round (v / 2)) \<and> length (stars (Some md)) = 5"
proof -
  have r: "math_round (v / 2) = round (v / 2)" by (simp add: math_round_def round_def)
  have lo: "0 \<le> round (v / 2)" using assms(2) by (simp add: round_def)
  have "v / 2 + 1 / 2 < 6" using assms(3) by simp
  then have "round (v / 2) < 6" unfolding round_def by (simp add: floor_less_iff)
  then have hi: "round (v / 2) \<le> 5" by simp
  have "starFilled (Some md) = (\<lambda>index. int index < round (v / 2))"
    using assms(1) r by (simp add: starFilled_def fun_eq_iff)
  then have "filledStars (Some md) = nat (round (v / 2))"
    using filled_prefix [OF lo hi] by (simp add: filledStars_def stars_def)
  then show ?thesis by (simp add: stars_def)
qed

theorem filled_stars_round_witness:
  "vote_average exampleData = Some 7 \<and> (0::rat) \<le> 7 \<and> (7::rat) \<le> 10
   \<and> filledStars (Some exampleData) = 4 \<and> length (stars (Some exampleData)) = 5"
proof -
  have v: "vote_average exampleData = Some 7" by (simp add: exampleData_def)
  have "nat (round ((7::rat) / 2)) = 4" by (simp add: round_def)
  then show ?thesis using filled_stars_round [OF v] v by simp
qed

section \<open>The paths requested\<close>

text \<open>
  C8. On becoming visible, the primary request goes to \<^verbatim>\<open>/movie/{id}\<close> for a movie and
  \<^verbatim>\<open>/tv/{id}\<close> for a show, and the second request to \<^verbatim>\<open>/movie/{id}/release_dates\<close> or
  \<^verbatim>\<open>/tv/{id}/content_ratings\<close>; the second request is issued only for a movie or a show.
\<close>

theorem request_paths:
  "(media_type media = ''movie'' \<longrightarrow>
      fetchEffects key (Some (media_id media, media_type media, False)) True media =
        [\<lparr>path = ''/movie/'' @ media_id media, api_key = key, language = ''en-US''\<rparr>,
         \<lparr>path = ''/movie/'' @ media_id media @ ''/release_dates'', api_key = key,
          language = ''en-US''\<rparr>])
   \<and> (media_type media = ''show'' \<longrightarrow>
      fetchEffects key (Some (media_id media, media_type media, False)) True media =
        [\<lparr>path = ''/tv/'' @ media_id media, api_key = key, language = ''en-US''\<rparr>,
         \<lparr>path = ''/tv/'' @ media_id media @ ''/content_ratings'', api_key = key,
          language = ''en-US''\<rparr>])
   \<and> (fetchContentRatingsOrReleaseDates key isVisible media \<noteq> None \<longrightarrow>
        media_type media = ''movie'' \<or> media_type media = ''show'')"
  by (auto simp: fetchEffects_def depsChanged_def fetchData_def
      fetchContentRatingsOrReleaseDates_def List.map_filter_simps)

theorem request_paths_witness:
  "fetchEffects ''k'' (Some (''603'', ''movie'', False)) True exampleMovie =
     [\<lparr>path = ''/movie/603'', api_key = ''k'', language = ''en-US''\<rparr>,
      \<lparr>path = ''/movie/603/release_dates'', api_key = ''k'', language = ''en-US''\<rparr>]
   \<and> fetchEffects ''k'' (Some (''1399'', ''show'', False)) True exampleShow =
     [\<lparr>path = ''/tv/1399'', api_key = ''k'', language = ''en-US''\<rparr>,
      \<lparr>path = ''/tv/1399/content_ratings'', api_key = ''k'', language = ''en-US''\<rparr>]"
  using request_paths [of exampleMovie "''k''" True] request_paths [of exampleShow "''k''" True]
  by (simp add: exampleMovie_def exampleShow_def)

section \<open>The watch action\<close>

text \<open>
  C9, as stated, fails: the path handed to \<^verbatim>\<open>navigate\<close> for a show is not of the form
  \<^verbatim>\<open>{type}-{id}-{title}\<close>, neither with the media's type nor with the segment \<^verbatim>\<open>tv\<close>,
  because it starts with a fixed prefix.
\<close>

theorem literal_route_form_counterexample:
  "watchRoute exampleShow = ''/media/tmdb-tv-1399-Game of Thrones''
   \<and> spec_routeForm (media_type exampleShow) (media_id exampleShow) (media_title exampleShow)
       = ''show-1399-Game of Thrones''
   \<and> watchRoute exampleShow
       \<noteq> spec_routeForm (media_type exampleShow) (media_id exampleShow) (media_title exampleShow)
   \<and> watchRoute exampleShow \<noteq> spec_routeForm ''tv'' (media_id exampleShow) (media_title exampleShow)"
  by (simp add: watchRoute_def spec_routeForm_def exampleShow_def)

text \<open>
  C9, amended. The watch action hands \<^verbatim>\<open>navigate\<close> the path \<^verbatim>\<open>/media/tmdb-{type}-{id}-{title}\<close>:
  the fixed prefix \<^verbatim>\<open>/media/tmdb-\<close> of twelve characters, then the form
  \<^verbatim>\<open>{type}-{id}-{title}\<close> built from the media's id and display title and a type segment
  that is \<^verbatim>\<open>tv\<close> when the media's type is \<^verbatim>\<open>show\<close> and \<^verbatim>\<open>movie\<close> for any other type. It
  is the target of the watch button of the rendered overlay.
\<close>

theorem watch_route_form:
  "(media_type media = ''show'' \<longrightarrow>
      watchRoute media = ''/media/tmdb-tv-'' @ media_id media @ ''-'' @ media_title media)
   \<and> (media_type media \<noteq> ''show'' \<longrightarrow>
      watchRoute media = ''/media/tmdb-movie-'' @ media_id media @ ''-'' @ media_title media)
   \<and> take 12 (watchRoute media) = ''/media/tmdb-''
   \<and> drop 12 (watchRoute media) =
       spec_routeForm (if media_type media = ''show'' then ''tv'' else ''movie'')
         (media_id media) (media_title media)
   \<and> (render parseDate isVisible media s = Overlay v \<longrightarrow> watchTarget v = watchRoute media)"
  by (auto simp: watchRoute_def spec_routeForm_def render_def split: if_splits option.splits)

theorem watch_route_form_witness:
  "watchRoute exampleShow = ''/media/tmdb-tv-1399-Game of Thrones''
   \<and> watchRoute exampleMovie = ''/media/tmdb-movie-603-The Matrix''
   \<and> drop 12 (watchRoute exampleMovie) = ''movie-603-The Matrix''"
  using watch_route_form [of exampleShow] watch_route_form [of exampleMovie]
  by (simp add: exampleShow_def exampleMovie_def spec_routeForm_def)

section \<open>The outside-click listener at work\<close>

lemma cleanup_registered:
  assumes "registered l = (case currentHandler l of None \<Rightarrow> [] | Some h \<Rightarrow> [h])"
  shows "registered (cleanup l) = [] \<and> currentHandler (cleanup l) = None"
  using assms by (simp add: cleanup_def split: option.splits)

lemma lifecycle_registered:
  assumes "registered l = (case currentHandler l of None \<Rightarrow> [] | Some h \<Rightarrow> [h])"
  shows "registered (lifecycle l ev) =
           (case currentHandler (lifecycle l ev) of None \<Rightarrow> [] | Some h \<Rightarrow> [h])"
  using cleanup_registered [OF assms] by (cases ev) (simp_all add: Let_def)

lemma reachable_registered:
  "registered (foldl lifecycle noListeners evs) =
     (case currentHandler (foldl lifecycle noListeners evs) of None \<Rightarrow> [] | Some h \<Rightarrow> [h])"
proof (induction evs rule: rev_induct)
  case Nil
  show ?case by (simp add: noListeners_def)
next
  case (snoc ev evs)
  show ?case using lifecycle_registered [OF snoc.IH, of ev] by simp
qed

text \<open>
  C7, as stated, fails while the error text is shown: the component is mounted and visible,
  but the error text is rendered in place of the overlay, \<^verbatim>\<open>modalRef.current\<close> is null, and a
  mousedown outside the panel does not call \<^verbatim>\<open>onClose\<close>.
\<close>

theorem error_state_click_counterexample:
  "currentHandler (foldl lifecycle noListeners [RunEffect]) \<noteq> None
   \<and> render exampleParseDate True exampleMovie exampleFailedState
       = ErrorDiv ''Error: Failed to fetch media data''
   \<and> \<not> exampleContains 1 0
   \<and> mousedown exampleContains
        (modalRefCurrent 1 (render exampleParseDate True exampleMovie exampleFailedState))
        (foldl lifecycle noListeners [RunEffect]) 0 = 0"
  by (simp add: noListeners_def cleanup_def Let_def render_def exampleFailedState_def
      initialState_def exampleContains_def mousedown_def handleClickOutside_def
      modalRefCurrent_def)

text \<open>
  C7, amended. While the component is mounted (its listener effect has run and not been
  cleaned up) and visible and the overlay body is rendered (no error text in its place), a
  mousedown outside the overlay's panel calls \<^verbatim>\<open>onClose\<close> exactly once, and a mousedown
  inside the panel does not call it.
\<close>

theorem outside_click_dismisses_once:
  assumes "currentHandler (foldl lifecycle noListeners evs) \<noteq> None"
    and "render parseDate True media s = Overlay v"
  shows "mousedown contains (modalRefCurrent panel (render parseDate True media s))
           (foldl lifecycle noListeners evs) target
         = (if contains panel target then 0 else 1)"
proof -
  obtain h where "registered (foldl lifecycle noListeners evs) = [h]"
    using assms(1) reachable_registered [of evs] by (auto split: option.splits)
  then show ?thesis
    using assms(2) by (simp add: mousedown_def handleClickOutside_def modalRefCurrent_def)
qed

theorem outside_click_dismisses_once_witness:
  "currentHandler (foldl lifecycle noListeners [RunEffect, RunEffect]) \<noteq> None
   \<and> mousedown exampleContains
        (modalRefCurrent 1 (render exampleParseDate True exampleMovie initialState))
        (foldl lifecycle noListeners [RunEffect, RunEffect]) 0 = 1
   \<and> mousedown exampleContains
        (modalRefCurrent 1 (render exampleParseDate True exampleMovie initialState))
        (foldl lifecycle noListeners [RunEffect, RunEffect]) 2 = 0"
proof -
  have m: "currentHandler (foldl lifecycle noListeners [RunEffect, RunEffect]) \<noteq> None"
    by (simp add: noListeners_def cleanup_def Let_def)
  obtain v where r: "render exampleParseDate True exampleMovie initialState = Overlay v"
    by (simp add: render_def initialState_def)
  show ?thesis
    using outside_click_dismisses_once [OF m r, of exampleContains 1 0]
      outside_click_dismisses_once [OF m r, of exampleContains 1 2] m
    by (simp add: exampleContains_def)
qed

end
